theory Spec2Isabelle
  imports Complex_Main
begin

section \<open>Numbers\<close>

text \<open>
  The program computes with JavaScript numbers. Finite values are modelled as reals
  (rounding is not modelled). The tick of the hand tracker contains one division whose
  divisor can be zero; in JavaScript that yields \<open>Infinity\<close>, \<open>-Infinity\<close> or
  \<open>NaN\<close>, so the quotient is a \<open>jsnum\<close>, and the comparisons of the gesture
  classifier are the JavaScript comparisons on such a value: every comparison with
  \<open>NaN\<close> is false.
\<close>

datatype jsnum = Finite real | PosInfinity | NegInfinity | NaN

definition js_div :: "real \<Rightarrow> real \<Rightarrow> jsnum" where
  "js_div a b =
     (if b \<noteq> 0 then Finite (a / b)
      else if a = 0 then NaN
      else if 0 < a then PosInfinity
      else NegInfinity)"

fun js_lt :: "jsnum \<Rightarrow> real \<Rightarrow> bool" where
  "js_lt (Finite a) b = (a < b)"
| "js_lt PosInfinity b = False"
| "js_lt NegInfinity b = True"
| "js_lt NaN b = False"

fun js_gt :: "jsnum \<Rightarrow> real \<Rightarrow> bool" where
  "js_gt (Finite a) b = (b < a)"
| "js_gt PosInfinity b = True"
| "js_gt NegInfinity b = False"
| "js_gt NaN b = False"

fun isFinite :: "jsnum \<Rightarrow> bool" where
  "isFinite (Finite a) = True"
| "isFinite PosInfinity = False"
| "isFinite NegInfinity = False"
| "isFinite NaN = False"

section \<open>TreeContext.tsx\<close>

datatype TreeState = FORMED | CHAOS | FOCUS

datatype Gesture = OPEN | CLOSED | NONE

text \<open>
  \<open>HandData\<close>: the fields \<open>x\<close>, \<open>y\<close>, \<open>z\<close> of the source are named
  \<open>hand_x\<close>, \<open>hand_y\<close>, \<open>hand_z\<close> here.
\<close>

record HandData =
  hand_x :: real
  hand_y :: real
  hand_z :: real
  gesture :: Gesture
  isPresent :: bool

text \<open>
  The mutable state the detection loop works on: \<open>handDataRef.current\<close>,
  \<open>lastGestureRef.current\<close>, the React states \<open>currentGesture\<close> and
  \<open>activeState\<close>. \<open>transitionLog\<close> is a ghost field: the arguments of all calls
  of \<open>transitionTo\<close> so far, oldest first.
\<close>

record app =
  handData :: HandData
  lastGesture :: Gesture
  currentGesture :: Gesture
  activeState :: TreeState
  transitionLog :: "TreeState list"

definition initialApp :: app where
  "initialApp =
     \<lparr> handData = \<lparr> hand_x = 0, hand_y = 0, hand_z = 0, gesture = NONE, isPresent = False \<rparr>,
       lastGesture = NONE,
       currentGesture = NONE,
       activeState = FORMED,
       transitionLog = [] \<rparr>"

definition transitionTo :: "TreeState \<Rightarrow> app \<Rightarrow> app" where
  "transitionTo state s = s\<lparr> activeState := state, transitionLog := transitionLog s @ [state] \<rparr>"

section \<open>HandTracker.tsx\<close>

record Landmark =
  lm_x :: real
  lm_y :: real
  lm_z :: real

text \<open>
  \<open>results.landmarks\<close> is absent or an array of hands, a hand being an array of
  landmarks. Reading an index the array does not have gives \<open>undefined\<close>, and reading a
  coordinate of that raises a \<open>TypeError\<close>.
\<close>

type_synonym hand = "Landmark list"

type_synonym results = "hand list option"

datatype error = TypeError

definition at_index :: "'a list \<Rightarrow> nat \<Rightarrow> 'a option" where
  "at_index xs i = (if i < length xs then Some (xs ! i) else None)"

definition zoomFactor :: "real \<Rightarrow> real" where
  "zoomFactor palmSize = min (max ((palmSize - 0.05) * 4.0) 0) 1"

text \<open>The body of \<open>tips.forEach\<close>, accumulating \<open>totalDist\<close>.\<close>

fun tipsForEach :: "hand \<Rightarrow> Landmark \<Rightarrow> nat list \<Rightarrow> real \<Rightarrow> error + real" where
  "tipsForEach landmarks wrist [] totalDist = Inr totalDist"
| "tipsForEach landmarks wrist (tipIdx # rest) totalDist =
     (case at_index landmarks tipIdx of
        None \<Rightarrow> Inl TypeError
      | Some tip \<Rightarrow>
          let d = sqrt ((lm_x tip - lm_x wrist) ^ 2
                      + (lm_y tip - lm_y wrist) ^ 2
                      + (lm_z tip - lm_z wrist) ^ 2)
          in tipsForEach landmarks wrist rest (totalDist + d))"

text \<open>The hysteresis of lines 153 to 162: \<open>newGesture\<close> from \<open>compactness\<close> and
  \<open>lastGestureRef.current\<close>.\<close>

definition classifyGesture :: "jsnum \<Rightarrow> Gesture \<Rightarrow> Gesture" where
  "classifyGesture compactness lastGestureRef =
     (if js_lt compactness 1.4 then CLOSED
      else if js_gt compactness 1.6 then OPEN
      else lastGestureRef)"

definition palmSizeOf :: "Landmark \<Rightarrow> Landmark \<Rightarrow> real" where
  "palmSizeOf l0 l9 =
     (let dx = lm_x l0 - lm_x l9;
          dy = lm_y l0 - lm_y l9;
          dz = lm_z l0 - lm_z l9
      in sqrt (dx * dx + dy * dy + dz * dz))"

text \<open>
  Step 2 of \<open>processResults\<close> up to \<open>compactness\<close>: the average distance of the
  four fingertips from the wrist, divided by \<open>palmSize\<close>.
\<close>

definition frameCompactness :: "hand \<Rightarrow> Landmark \<Rightarrow> real \<Rightarrow> error + jsnum" where
  "frameCompactness landmarks wrist palmSize =
     (case tipsForEach landmarks wrist [8, 12, 16, 20] 0 of
        Inl e \<Rightarrow> Inl e
      | Inr totalDist \<Rightarrow>
          let avgDist = totalDist / 4
          in Inr (js_div avgDist palmSize))"

text \<open>
  \<open>processResults\<close> returns the state it leaves behind and the exception it raised, if
  any: the assignments made before a \<open>TypeError\<close> stay.
\<close>

definition processResults :: "results \<Rightarrow> app \<Rightarrow> error option \<times> app" where
  "processResults results s =
     (case results of
        Some (landmarks # _) \<Rightarrow>
          (case (at_index landmarks 0, at_index landmarks 9) of
             (Some wrist, Some l9) \<Rightarrow>
               let rawX = lm_x wrist;
                   rawY = lm_y wrist;
                   palmSize = palmSizeOf wrist l9;
                   s1 = s\<lparr> handData :=
                          \<lparr> hand_x = - (rawX - 0.5) * 2,
                            hand_y = - (rawY - 0.5) * 2,
                            hand_z = zoomFactor palmSize,
                            gesture = gesture (handData s),
                            isPresent = True \<rparr> \<rparr>
               in (case frameCompactness landmarks wrist palmSize of
                     Inl e \<Rightarrow> (Some e, s1)
                   | Inr compactness \<Rightarrow>
                       let newGesture = classifyGesture compactness (lastGesture s1);
                           s2 = s1\<lparr> handData := (handData s1)\<lparr> gesture := newGesture \<rparr> \<rparr>
                       in if newGesture \<noteq> lastGesture s2
                          then
                            let s3 = s2\<lparr> lastGesture := newGesture, currentGesture := newGesture \<rparr>;
                                s4 = (if newGesture = CLOSED then transitionTo FORMED s3 else s3);
                                s5 = (if newGesture = OPEN then transitionTo CHAOS s4 else s4)
                            in (None, s5)
                          else (None, s2))
           | _ \<Rightarrow> (Some TypeError, s))
      | _ \<Rightarrow> (None, s\<lparr> handData := (handData s)\<lparr> isPresent := False \<rparr> \<rparr>))"

text \<open>
  One round of \<open>predictWebcam\<close>: \<open>detectForVideo\<close> either raises (\<open>None\<close>) or
  returns results, which \<open>processResults\<close> handles; any exception is caught and logged,
  and the loop goes on with the state as it is.
\<close>

definition predictWebcam :: "results option \<Rightarrow> app \<Rightarrow> app" where
  "predictWebcam detection s =
     (case detection of
        None \<Rightarrow> s
      | Some results \<Rightarrow> snd (processResults results s))"

text \<open>
  What happens to the state during a session: rounds of the detection loop, and calls of
  \<open>transitionTo\<close> from outside the tracker. The two buttons of \<open>UIOverlay.tsx\<close>
  call it with \<open>FORMED\<close> and \<open>CHAOS\<close>; its parameter type has \<open>FOCUS\<close> too.
\<close>

datatype event = Frame "results option" | Click TreeState

fun step :: "event \<Rightarrow> app \<Rightarrow> app" where
  "step (Frame detection) s = predictWebcam detection s"
| "step (Click state) s = transitionTo state s"

fun run :: "event list \<Rightarrow> app \<Rightarrow> app" where
  "run [] s = s"
| "run (e # es) s = run es (step e s)"

text \<open>The states after each event of a run, in order.\<close>

fun trace :: "event list \<Rightarrow> app \<Rightarrow> app list" where
  "trace [] s = []"
| "trace (e # es) s = step e s # trace es (step e s)"

text \<open>A detection that found no hand: the else branch of \<open>processResults\<close>.\<close>

fun noHand :: "results \<Rightarrow> bool" where
  "noHand (Some (landmarks # _)) = False"
| "noHand _ = True"

text \<open>
  The dead band of the specification, \<open>[1.4, 1.6]\<close>, as a set of numbers: neither
  infinity nor \<open>NaN\<close> lies in an interval.
\<close>

fun inDeadBand :: "jsnum \<Rightarrow> bool" where
  "inDeadBand (Finite c) = (1.4 \<le> c \<and> c \<le> 1.6)"
| "inDeadBand _ = False"

text \<open>An event that is a detection tick with no hand.\<close>

fun absentFrame :: "event \<Rightarrow> bool" where
  "absentFrame (Frame (Some results)) = noHand results"
| "absentFrame _ = False"

text \<open>
  The transitions of the specification's state machine (4.3): what is requested when the
  classifier output goes from \<open>previous\<close> to \<open>new\<close>. Nothing on a sustained gesture,
  \<open>FORMED\<close> on a change to \<open>CLOSED\<close>, \<open>CHAOS\<close> on a change to \<open>OPEN\<close>.
\<close>

definition spec_transitions :: "Gesture \<Rightarrow> Gesture \<Rightarrow> TreeState list" where
  "spec_transitions previous new =
     (if new = previous then []
      else if new = CLOSED then [FORMED]
      else if new = OPEN then [CHAOS]
      else [])"

text \<open>
  A test hand of 21 landmarks: the wrist at the origin, landmark 9 at \<open>(p, 0, 0)\<close>,
  every other landmark (the four fingertips among them) at \<open>(t, 0, 0)\<close>. For
  \<open>p > 0\<close> and \<open>t \<ge> 0\<close> its palm size is \<open>p\<close> and its compactness \<open>t / p\<close>.
\<close>

definition testHand :: "real \<Rightarrow> real \<Rightarrow> hand" where
  "testHand p t =
     (replicate 21 \<lparr> lm_x = t, lm_y = 0, lm_z = 0 \<rparr>)
       [0 := \<lparr> lm_x = 0, lm_y = 0, lm_z = 0 \<rparr>, 9 := \<lparr> lm_x = p, lm_y = 0, lm_z = 0 \<rparr>]"

definition handFrame :: "real \<Rightarrow> real \<Rightarrow> event" where
  "handFrame p t = Frame (Some (Some [testHand p t]))"

section \<open>MagicTree.tsx\<close>

text \<open>\<open>THREE.MathUtils.lerp\<close> of three.js: \<open>(1 - t) * x + t * y\<close>, with no clamp of
  \<open>t\<close>.\<close>

definition lerp :: "real \<Rightarrow> real \<Rightarrow> real \<Rightarrow> real" where
  "lerp x y t = (1 - t) * x + t * y"

subsection \<open>CameraRig\<close>

record Camera =
  cam_x :: real
  cam_y :: real
  cam_z :: real

definition rangeX :: "bool \<Rightarrow> real" where
  "rangeX isChaos = (if isChaos then 50 else 30)"

definition rangeY :: "bool \<Rightarrow> real" where
  "rangeY isChaos = (if isChaos then 25 else 15)"

definition offsetY :: "bool \<Rightarrow> real" where
  "offsetY isChaos = (if isChaos then 2 else 5)"

definition maxDist :: "bool \<Rightarrow> real" where
  "maxDist isChaos = (if isChaos then 40 else 35)"

definition minDist :: real where
  "minDist = 12"

text \<open>The callback of \<open>useFrame\<close> in \<open>CameraRig\<close>, on \<open>camera.position\<close>.\<close>

definition cameraRigFrame :: "TreeState \<Rightarrow> HandData \<Rightarrow> real \<Rightarrow> real \<Rightarrow> Camera \<Rightarrow> Camera" where
  "cameraRigFrame activeSt hand elapsedTime delta camera =
     (let damp = 2.0 * delta
      in if isPresent hand
         then
           let isChaos = (activeSt = CHAOS);
               targetX = hand_x hand * rangeX isChaos;
               targetY = hand_y hand * rangeY isChaos + offsetY isChaos;
               targetZ = lerp (maxDist isChaos) minDist (hand_z hand)
           in \<lparr> cam_x = lerp (cam_x camera) targetX damp,
                cam_y = lerp (cam_y camera) targetY damp,
                cam_z = lerp (cam_z camera) targetZ damp \<rparr>
         else
           let time = elapsedTime * 0.15;
               idleX = sin time * 4;
               idleZ = 25 + cos time * 2
           in \<lparr> cam_x = lerp (cam_x camera) idleX (damp * 0.5),
                cam_y = lerp (cam_y camera) 2 (damp * 0.5),
                cam_z = lerp (cam_z camera) idleZ (damp * 0.5) \<rparr>)"

subsection \<open>MagicTree\<close>

record Material =
  uTime :: real
  uPixelRatio :: real
  uState :: real

definition targetStateValue :: "TreeState \<Rightarrow> real" where
  "targetStateValue activeStateRef = (if activeStateRef = CHAOS then 1.0 else 0.0)"

text \<open>The new \<open>uState\<close> of one render tick.\<close>

definition blendStep :: "TreeState \<Rightarrow> real \<Rightarrow> real \<Rightarrow> real" where
  "blendStep activeStateRef delta u =
     (let smoothing = 2.0 * delta
      in lerp u (targetStateValue activeStateRef) smoothing)"

text \<open>The callback of \<open>useFrame\<close> in \<open>MagicTree\<close>, on \<open>materialRef.current\<close>.\<close>

definition magicTreeFrame ::
  "TreeState \<Rightarrow> real \<Rightarrow> real \<Rightarrow> real \<Rightarrow> Material option \<Rightarrow> Material option" where
  "magicTreeFrame activeStateRef elapsedTime devicePixelRatio delta materialRef =
     (case materialRef of
        None \<Rightarrow> None
      | Some m \<Rightarrow>
          Some (m\<lparr> uTime := elapsedTime,
                   uPixelRatio := min devicePixelRatio 2,
                   uState := blendStep activeStateRef delta (uState m) \<rparr>))"

text \<open>\<open>n\<close> render ticks with the same state and the same \<open>delta\<close>.\<close>

fun blendTicks :: "nat \<Rightarrow> TreeState \<Rightarrow> real \<Rightarrow> real \<Rightarrow> real" where
  "blendTicks 0 st delta u = u"
| "blendTicks (Suc n) st delta u = blendTicks n st delta (blendStep st delta u)"

text \<open>
  The update of the blend parameter in the words of the specification:
  \<open>value += (target - value) * min(1, smoothingRate * deltaTime)\<close> with the rate 2.
\<close>

definition spec_blendStep :: "real \<Rightarrow> real \<Rightarrow> real \<Rightarrow> real" where
  "spec_blendStep target deltaTime v = v + (target - v) * min 1 (2.0 * deltaTime)"

section \<open>utils/math.ts\<close>

record TreeData =
  positionsTree :: "real list"
  positionsSphere :: "real list"
  randoms :: "real list"

text \<open>
  \<open>Math.random\<close> is a parameter \<open>rnd\<close>: call number \<open>k\<close> of a run returns
  \<open>rnd k\<close>. The loop state is the number of calls made so far and the three arrays
  (\<open>Float32Array\<close>s, their elements modelled as reals; a write outside the array is
  ignored, as for \<open>list_update\<close>). \<open>count\<close> is a natural number.
  \<open>treeHeight\<close> and \<open>treeRadius\<close> are parameters; \<open>MagicTree\<close> leaves them at
  their defaults, 15 and 6.
\<close>

definition loopBody ::
  "(nat \<Rightarrow> real) \<Rightarrow> nat \<Rightarrow> real \<Rightarrow> real \<Rightarrow> nat \<Rightarrow> nat \<times> TreeData \<Rightarrow> nat \<times> TreeData" where
  "loopBody rnd count treeHeight treeRadius i st =
     (let k = fst st;
          arrays = snd st;
          i3 = i * 3;
          randoms' = (randoms arrays)[i := rnd k];
          theta = rnd (k + 1) * pi * 2;
          v = rnd (k + 2);
          phi = arccos (2 * v - 1);
          rSphere = 8 + rnd (k + 3) * 2;
          sx = rSphere * sin phi * cos theta;
          sy = rSphere * sin phi * sin theta;
          sz = rSphere * cos phi;
          positionsSphere' = (positionsSphere arrays)[i3 := sx, i3 + 1 := sy, i3 + 2 := sz];
          yPct = real i / real count;
          y = (yPct - 0.5) * treeHeight;
          strandCount = 12;
          strandId = i mod strandCount;
          radiusPct = 1.0 - yPct;
          baseRadius = radiusPct * treeRadius;
          majorTurns = 3.0;
          majorAngle = yPct * pi * 2 * majorTurns;
          strandOffset = (real strandId / real strandCount) * pi * 2;
          curlFreq = 8.0 + (yPct * 4.0);
          curlPhase = real strandId * 135.5;
          rWiggleAmp = 0.8 * radiusPct;
          angleWiggleAmp = 0.4 * radiusPct;
          rWiggle = sin (yPct * pi * 2 * curlFreq + curlPhase) * rWiggleAmp;
          angleWiggle = cos (yPct * pi * 2 * curlFreq + curlPhase) * angleWiggleAmp;
          rFinal = baseRadius + rWiggle;
          thetaFinal = majorAngle + strandOffset + angleWiggle;
          tx = rFinal * cos thetaFinal;
          tz = rFinal * sin thetaFinal;
          scatter = 0.1;
          jitterX = (rnd (k + 4) - 0.5) * scatter;
          jitterY = (rnd (k + 5) - 0.5) * scatter;
          jitterZ = (rnd (k + 6) - 0.5) * scatter;
          positionsTree' =
            (positionsTree arrays)[i3 := tx + jitterX, i3 + 1 := y + jitterY, i3 + 2 := tz + jitterZ]
      in (k + 7,
          \<lparr> positionsTree = positionsTree',
            positionsSphere = positionsSphere',
            randoms = randoms' \<rparr>))"

function forLoop ::
  "(nat \<Rightarrow> real) \<Rightarrow> nat \<Rightarrow> real \<Rightarrow> real \<Rightarrow> nat \<Rightarrow> nat \<times> TreeData \<Rightarrow> nat \<times> TreeData" where
  "forLoop rnd count treeHeight treeRadius i st =
     (if i < count
      then forLoop rnd count treeHeight treeRadius (i + 1)
             (loopBody rnd count treeHeight treeRadius i st)
      else st)"
  by pat_completeness auto
termination
  by (relation "measure (\<lambda>(rnd, count, treeHeight, treeRadius, i, st). count - i)") auto

definition generateTreeData :: "(nat \<Rightarrow> real) \<Rightarrow> nat \<Rightarrow> real \<Rightarrow> real \<Rightarrow> TreeData" where
  "generateTreeData rnd count treeHeight treeRadius =
     snd (forLoop rnd count treeHeight treeRadius 0
            (0, \<lparr> positionsTree = replicate (count * 3) 0,
                  positionsSphere = replicate (count * 3) 0,
                  randoms = replicate count 0 \<rparr>))"

text \<open>Point \<open>i\<close> of a position array: its three consecutive elements from \<open>3 * i\<close>.\<close>

definition pointAt :: "real list \<Rightarrow> nat \<Rightarrow> real \<times> real \<times> real" where
  "pointAt positions i = (positions ! (i * 3), positions ! (i * 3 + 1), positions ! (i * 3 + 2))"

definition distanceFromOrigin :: "real \<times> real \<times> real \<Rightarrow> real" where
  "distanceFromOrigin p = (case p of (a, b, c) \<Rightarrow> sqrt (a * a + b * b + c * c))"

text \<open>
  The sphere point the loop body computes from the calls \<open>k + 1\<close>, \<open>k + 2\<close> and
  \<open>k + 3\<close> of \<open>Math.random\<close>: \<open>sx\<close>, \<open>sy\<close>, \<open>sz\<close> of \<open>loopBody\<close>.
\<close>

definition spherePoint :: "(nat \<Rightarrow> real) \<Rightarrow> nat \<Rightarrow> real \<times> real \<times> real" where
  "spherePoint rnd k =
     (let theta = rnd (k + 1) * pi * 2;
          v = rnd (k + 2);
          phi = arccos (2 * v - 1);
          rSphere = 8 + rnd (k + 3) * 2
      in (rSphere * sin phi * cos theta, rSphere * sin phi * sin theta, rSphere * cos phi))"

section \<open>Properties\<close>

subsection \<open>The detection tick\<close>

lemma at_index_complete: "i < length xs \<Longrightarrow> at_index xs i = Some (xs ! i)"
  by (simp add: at_index_def)

text \<open>On a hand that has every fingertip index, \<open>tips.forEach\<close> ends without an
  exception, and \<open>totalDist\<close> only grows.\<close>

lemma tipsForEach_complete:
  "\<forall>i \<in> set tips. i < length landmarks \<Longrightarrow>
   \<exists>t. tipsForEach landmarks wrist tips acc = Inr t \<and> acc \<le> t"
proof (induction tips arbitrary: acc)
  case Nil
  then show ?case by simp
next
  case (Cons a tips)
  define d where "d = sqrt ((lm_x (landmarks ! a) - lm_x wrist) ^ 2
                      + (lm_y (landmarks ! a) - lm_y wrist) ^ 2
                      + (lm_z (landmarks ! a) - lm_z wrist) ^ 2)"
  have d0: "0 \<le> d" unfolding d_def by simp
  from Cons.prems have a: "a < length landmarks" and rest: "\<forall>i \<in> set tips. i < length landmarks"
    by simp_all
  from Cons.IH [OF rest, of "acc + d"] obtain t
    where t: "tipsForEach landmarks wrist tips (acc + d) = Inr t" "acc + d \<le> t" by blast
  have "tipsForEach landmarks wrist (a # tips) acc = Inr t"
    using a t(1) by (simp add: at_index_complete d_def)
  moreover have "acc \<le> t" using t(2) d0 by linarith
  ultimately show ?case by blast
qed

lemma frameCompactness_complete:
  assumes "20 < length landmarks"
  shows "\<exists>t. 0 \<le> t \<and> frameCompactness landmarks wrist palmSize = Inr (js_div (t / 4) palmSize)"
proof -
  have "\<forall>i \<in> set [8, 12, 16, 20]. i < length landmarks" using assms by simp
  from tipsForEach_complete [OF this, of wrist 0] obtain t
    where "tipsForEach landmarks wrist [8, 12, 16, 20] 0 = Inr t" "0 \<le> t" by blast
  then show ?thesis by (auto simp add: frameCompactness_def)
qed

lemma palmSizeOf_zero_iff:
  "palmSizeOf a b = 0 \<longleftrightarrow> lm_x a = lm_x b \<and> lm_y a = lm_y b \<and> lm_z a = lm_z b"
proof -
  have "(lm_x a - lm_x b) * (lm_x a - lm_x b) + (lm_y a - lm_y b) * (lm_y a - lm_y b)
          + (lm_z a - lm_z b) * (lm_z a - lm_z b) = 0
        \<longleftrightarrow> lm_x a - lm_x b = 0 \<and> lm_y a - lm_y b = 0 \<and> lm_z a - lm_z b = 0"
    by (smt (verit) mult_eq_0_iff zero_le_square)
  then show ?thesis by (simp add: palmSizeOf_def Let_def)
qed

lemma processResults_noHand:
  "noHand results \<Longrightarrow>
   processResults results s = (None, s\<lparr> handData := (handData s)\<lparr> isPresent := False \<rparr> \<rparr>)"
  by (cases results rule: noHand.cases) (simp_all add: processResults_def)

text \<open>A tick that reaches the classifier with compactness \<open>c\<close>.\<close>

lemma processResults_classified:
  assumes "at_index landmarks 0 = Some wrist" and "at_index landmarks 9 = Some l9"
    and "frameCompactness landmarks wrist (palmSizeOf wrist l9) = Inr c"
  shows "fst (processResults (Some (landmarks # rest)) s) = None"
    and "gesture (handData (snd (processResults (Some (landmarks # rest)) s)))
           = classifyGesture c (lastGesture s)"
    and "lastGesture (snd (processResults (Some (landmarks # rest)) s))
           = classifyGesture c (lastGesture s)"
    and "transitionLog (snd (processResults (Some (landmarks # rest)) s)) = transitionLog s @
           (if classifyGesture c (lastGesture s) = lastGesture s then []
            else if classifyGesture c (lastGesture s) = CLOSED then [FORMED]
            else if classifyGesture c (lastGesture s) = OPEN then [CHAOS] else [])"
    and "activeState (snd (processResults (Some (landmarks # rest)) s)) =
           (if classifyGesture c (lastGesture s) = lastGesture s then activeState s
            else if classifyGesture c (lastGesture s) = CLOSED then FORMED
            else if classifyGesture c (lastGesture s) = OPEN then CHAOS else activeState s)"
    and "isPresent (handData (snd (processResults (Some (landmarks # rest)) s)))"
    and "hand_z (handData (snd (processResults (Some (landmarks # rest)) s)))
           = zoomFactor (palmSizeOf wrist l9)"
  using assms by (simp_all add: processResults_def Let_def transitionTo_def)

text \<open>A tick that raises leaves the gesture, the stored last gesture, the application
  state and the log as they were.\<close>

lemma processResults_raised:
  assumes "fst (processResults results s) = Some e"
  shows "gesture (handData (snd (processResults results s))) = gesture (handData s)"
    and "lastGesture (snd (processResults results s)) = lastGesture s"
    and "transitionLog (snd (processResults results s)) = transitionLog s"
    and "activeState (snd (processResults results s)) = activeState s"
  using assms
  by (cases results rule: noHand.cases;
      simp add: processResults_def Let_def split: option.splits sum.splits if_splits)+

text \<open>Every tick either reaches the classifier or leaves the gesture, the stored last
  gesture and the log alone.\<close>

lemma processResults_kinds:
  "(\<exists>c. gesture (handData (snd (processResults results s))) = classifyGesture c (lastGesture s)
       \<and> lastGesture (snd (processResults results s)) = classifyGesture c (lastGesture s)
       \<and> transitionLog (snd (processResults results s)) = transitionLog s @
           (if classifyGesture c (lastGesture s) = lastGesture s then []
            else if classifyGesture c (lastGesture s) = CLOSED then [FORMED]
            else if classifyGesture c (lastGesture s) = OPEN then [CHAOS] else []))
   \<or> (gesture (handData (snd (processResults results s))) = gesture (handData s)
       \<and> lastGesture (snd (processResults results s)) = lastGesture s
       \<and> transitionLog (snd (processResults results s)) = transitionLog s)"
proof (cases "fst (processResults results s)")
  case (Some e)
  from processResults_raised [OF this] show ?thesis by simp
next
  case None
  show ?thesis
  proof (cases "noHand results")
    case True
    then show ?thesis by (simp add: processResults_noHand)
  next
    case False
    then obtain landmarks rest where r: "results = Some (landmarks # rest)"
      by (cases results rule: noHand.cases) simp_all
    from None r obtain wrist l9 c where
      "at_index landmarks 0 = Some wrist" "at_index landmarks 9 = Some l9"
      "frameCompactness landmarks wrist (palmSizeOf wrist l9) = Inr c"
      by (auto simp add: processResults_def Let_def split: option.splits sum.splits)
    from processResults_classified(2,3,4) [OF this, of rest s] r show ?thesis by blast
  qed
qed

text \<open>After every event the stored last gesture is the gesture of the hand data, and a
  gesture other than \<open>NONE\<close> stays one.\<close>

lemma step_inv:
  assumes "lastGesture s = gesture (handData s)"
  shows "lastGesture (step e s) = gesture (handData (step e s))"
    and "gesture (handData s) \<noteq> NONE \<Longrightarrow> gesture (handData (step e s)) \<noteq> NONE"
proof -
  show "lastGesture (step e s) = gesture (handData (step e s))"
  proof (cases e)
    case (Frame d)
    show ?thesis
    proof (cases d)
      case None
      with Frame assms show ?thesis by (simp add: predictWebcam_def)
    next
      case (Some results)
      with Frame assms processResults_kinds [of results s] show ?thesis
        by (auto simp add: predictWebcam_def)
    qed
  next
    case (Click st)
    with assms show ?thesis by (simp add: transitionTo_def)
  qed
  show "gesture (handData (step e s)) \<noteq> NONE" if "gesture (handData s) \<noteq> NONE"
  proof (cases e)
    case (Frame d)
    show ?thesis
    proof (cases d)
      case None
      with Frame that show ?thesis by (simp add: predictWebcam_def)
    next
      case (Some results)
      with Frame assms that processResults_kinds [of results s] show ?thesis
        by (auto simp add: predictWebcam_def classifyGesture_def split: if_splits)
    qed
  next
    case (Click st)
    with that show ?thesis by (simp add: transitionTo_def)
  qed
qed

lemma frame_log:
  assumes "lastGesture s = gesture (handData s)"
  shows "transitionLog (step (Frame d) s) = transitionLog s @
           (if gesture (handData (step (Frame d) s)) = gesture (handData s) then []
            else if gesture (handData (step (Frame d) s)) = CLOSED then [FORMED]
            else if gesture (handData (step (Frame d) s)) = OPEN then [CHAOS] else [])"
proof (cases d)
  case None
  then show ?thesis by (simp add: predictWebcam_def)
next
  case (Some results)
  with assms processResults_kinds [of results s] show ?thesis
    by (auto simp add: predictWebcam_def)
qed

lemma run_append: "run (es @ es') s = run es' (run es s)"
  by (induction es arbitrary: s) simp_all

lemma run_inv:
  "lastGesture s = gesture (handData s) \<Longrightarrow> lastGesture (run es s) = gesture (handData (run es s))"
  by (induction es arbitrary: s) (simp_all add: step_inv(1))

lemma run_not_NONE:
  "lastGesture s = gesture (handData s) \<Longrightarrow> gesture (handData s) \<noteq> NONE
   \<Longrightarrow> gesture (handData (run es s)) \<noteq> NONE"
  by (induction es arbitrary: s) (simp_all add: step_inv)

lemma initialApp_inv: "lastGesture initialApp = gesture (handData initialApp)"
  by (simp add: initialApp_def)

text \<open>A hand with all 21 landmarks reaches the classifier.\<close>

lemma complete_hand_classified:
  assumes "20 < length landmarks"
  shows "\<exists>t. 0 \<le> t
     \<and> frameCompactness landmarks (landmarks ! 0) (palmSizeOf (landmarks ! 0) (landmarks ! 9))
         = Inr (js_div (t / 4) (palmSizeOf (landmarks ! 0) (landmarks ! 9)))
     \<and> fst (processResults (Some (landmarks # rest)) s) = None
     \<and> gesture (handData (snd (processResults (Some (landmarks # rest)) s)))
         = classifyGesture (js_div (t / 4) (palmSizeOf (landmarks ! 0) (landmarks ! 9))) (lastGesture s)
     \<and> lastGesture (snd (processResults (Some (landmarks # rest)) s))
         = classifyGesture (js_div (t / 4) (palmSizeOf (landmarks ! 0) (landmarks ! 9))) (lastGesture s)"
proof -
  from frameCompactness_complete [OF assms] obtain t where t: "0 \<le> t"
    "frameCompactness landmarks (landmarks ! 0) (palmSizeOf (landmarks ! 0) (landmarks ! 9))
         = Inr (js_div (t / 4) (palmSizeOf (landmarks ! 0) (landmarks ! 9)))"
    by blast
  have l0: "0 < length landmarks" and l9: "9 < length landmarks"
    using assms by linarith+
  have a: "at_index landmarks 0 = Some (landmarks ! 0)"
    by (rule at_index_complete [OF l0])
  have b: "at_index landmarks 9 = Some (landmarks ! 9)"
    by (rule at_index_complete [OF l9])
  from processResults_classified(1,2,3) [OF a b t(2), of rest s] t show ?thesis by blast
qed

text \<open>Ticks with no hand only clear \<open>isPresent\<close>.\<close>

lemma absent_step:
  assumes "absentFrame e"
  shows "step e s = s\<lparr> handData := (handData s)\<lparr> isPresent := False \<rparr> \<rparr>"
  using assms
  by (cases e rule: absentFrame.cases) (simp_all add: predictWebcam_def processResults_noHand)

lemma absent_run:
  "list_all absentFrame es \<Longrightarrow>
   run es s = (if es = [] then s else s\<lparr> handData := (handData s)\<lparr> isPresent := False \<rparr> \<rparr>)"
proof (induction es arbitrary: s)
  case Nil
  then show ?case by simp
next
  case (Cons e es)
  then show ?case by (simp add: absent_step)
qed

subsection \<open>The test hand\<close>

lemma testHand_nth:
  "length (testHand p t) = 21"
  "testHand p t ! 0 = \<lparr> lm_x = 0, lm_y = 0, lm_z = 0 \<rparr>"
  "testHand p t ! 9 = \<lparr> lm_x = p, lm_y = 0, lm_z = 0 \<rparr>"
  "testHand p t ! 8 = \<lparr> lm_x = t, lm_y = 0, lm_z = 0 \<rparr>"
  "testHand p t ! 12 = \<lparr> lm_x = t, lm_y = 0, lm_z = 0 \<rparr>"
  "testHand p t ! 16 = \<lparr> lm_x = t, lm_y = 0, lm_z = 0 \<rparr>"
  "testHand p t ! 20 = \<lparr> lm_x = t, lm_y = 0, lm_z = 0 \<rparr>"
  by (simp_all add: testHand_def)

lemma testHand_palmSize:
  "palmSizeOf \<lparr> lm_x = 0, lm_y = 0, lm_z = 0 \<rparr> \<lparr> lm_x = p, lm_y = 0, lm_z = 0 \<rparr> = \<bar>p\<bar>"
  by (simp add: palmSizeOf_def)

lemma testHand_compactness:
  "frameCompactness (testHand p t) \<lparr> lm_x = 0, lm_y = 0, lm_z = 0 \<rparr> q = Inr (js_div \<bar>t\<bar> q)"
  by (simp add: frameCompactness_def at_index_def testHand_nth)

lemma handFrame_step:
  "gesture (handData (step (handFrame p t) s)) = classifyGesture (js_div \<bar>t\<bar> \<bar>p\<bar>) (lastGesture s)"
  "lastGesture (step (handFrame p t) s) = classifyGesture (js_div \<bar>t\<bar> \<bar>p\<bar>) (lastGesture s)"
  "transitionLog (step (handFrame p t) s) = transitionLog s @
           (if classifyGesture (js_div \<bar>t\<bar> \<bar>p\<bar>) (lastGesture s) = lastGesture s then []
            else if classifyGesture (js_div \<bar>t\<bar> \<bar>p\<bar>) (lastGesture s) = CLOSED then [FORMED]
            else if classifyGesture (js_div \<bar>t\<bar> \<bar>p\<bar>) (lastGesture s) = OPEN then [CHAOS] else [])"
  "activeState (step (handFrame p t) s) =
           (if classifyGesture (js_div \<bar>t\<bar> \<bar>p\<bar>) (lastGesture s) = lastGesture s then activeState s
            else if classifyGesture (js_div \<bar>t\<bar> \<bar>p\<bar>) (lastGesture s) = CLOSED then FORMED
            else if classifyGesture (js_div \<bar>t\<bar> \<bar>p\<bar>) (lastGesture s) = OPEN then CHAOS else activeState s)"
  "isPresent (handData (step (handFrame p t) s))"
proof -
  have a: "at_index (testHand p t) 0 = Some \<lparr> lm_x = 0, lm_y = 0, lm_z = 0 \<rparr>"
    and b: "at_index (testHand p t) 9 = Some \<lparr> lm_x = p, lm_y = 0, lm_z = 0 \<rparr>"
    by (simp_all add: at_index_def testHand_nth)
  have c: "frameCompactness (testHand p t) \<lparr> lm_x = 0, lm_y = 0, lm_z = 0 \<rparr>
             (palmSizeOf \<lparr> lm_x = 0, lm_y = 0, lm_z = 0 \<rparr> \<lparr> lm_x = p, lm_y = 0, lm_z = 0 \<rparr>)
           = Inr (js_div \<bar>t\<bar> \<bar>p\<bar>)"
    by (simp add: testHand_compactness testHand_palmSize)
  note r = processResults_classified [OF a b c, of "[]" s]
  show "gesture (handData (step (handFrame p t) s)) = classifyGesture (js_div \<bar>t\<bar> \<bar>p\<bar>) (lastGesture s)"
    using r(2) by (simp add: handFrame_def predictWebcam_def)
  show "lastGesture (step (handFrame p t) s) = classifyGesture (js_div \<bar>t\<bar> \<bar>p\<bar>) (lastGesture s)"
    using r(3) by (simp add: handFrame_def predictWebcam_def)
  show "transitionLog (step (handFrame p t) s) = transitionLog s @
           (if classifyGesture (js_div \<bar>t\<bar> \<bar>p\<bar>) (lastGesture s) = lastGesture s then []
            else if classifyGesture (js_div \<bar>t\<bar> \<bar>p\<bar>) (lastGesture s) = CLOSED then [FORMED]
            else if classifyGesture (js_div \<bar>t\<bar> \<bar>p\<bar>) (lastGesture s) = OPEN then [CHAOS] else [])"
    using r(4) by (simp add: handFrame_def predictWebcam_def)
  show "activeState (step (handFrame p t) s) =
           (if classifyGesture (js_div \<bar>t\<bar> \<bar>p\<bar>) (lastGesture s) = lastGesture s then activeState s
            else if classifyGesture (js_div \<bar>t\<bar> \<bar>p\<bar>) (lastGesture s) = CLOSED then FORMED
            else if classifyGesture (js_div \<bar>t\<bar> \<bar>p\<bar>) (lastGesture s) = OPEN then CHAOS else activeState s)"
    using r(5) by (simp add: handFrame_def predictWebcam_def)
  show "isPresent (handData (step (handFrame p t) s))"
    using r(6) by (simp add: handFrame_def predictWebcam_def)
qed

section \<open>Claims\<close>

subsection \<open>The gesture classifier\<close>

text \<open>
  C1. For every compactness value \<open>c\<close> (finite, infinite or \<open>NaN\<close>) and every
  previous gesture \<open>prev\<close>, the classifier is the case split of lines 155 to 162: it
  returns \<open>CLOSED\<close> when \<open>c < 1.4\<close>, \<open>OPEN\<close> when \<open>c > 1.6\<close>, and \<open>prev\<close>
  unchanged otherwise. So it returns \<open>CLOSED\<close> exactly when \<open>c < 1.4\<close>, or \<open>c\<close> is
  not above 1.6 and \<open>prev\<close> is \<open>CLOSED\<close>; and \<open>OPEN\<close> exactly when \<open>c > 1.6\<close>,
  or \<open>c\<close> is not below 1.4 and \<open>prev\<close> is \<open>OPEN\<close>. The readings 1.0, 1.5, 1.5,
  1.8 from the previous gesture \<open>NONE\<close> give \<open>CLOSED\<close>, \<open>CLOSED\<close>, \<open>CLOSED\<close>,
  \<open>OPEN\<close>, both for the classifier alone and for four ticks of the detection loop,
  from the initial state, on hands with these compactness values.
\<close>

theorem classifier_cases:
  "(js_lt c 1.4 \<longrightarrow> classifyGesture c prev = CLOSED)
   \<and> (js_gt c 1.6 \<longrightarrow> classifyGesture c prev = OPEN)
   \<and> (\<not> js_lt c 1.4 \<and> \<not> js_gt c 1.6 \<longrightarrow> classifyGesture c prev = prev)
   \<and> (classifyGesture c prev = CLOSED \<longleftrightarrow> js_lt c 1.4 \<or> (\<not> js_gt c 1.6 \<and> prev = CLOSED))
   \<and> (classifyGesture c prev = OPEN \<longleftrightarrow> js_gt c 1.6 \<or> (\<not> js_lt c 1.4 \<and> prev = OPEN))
   \<and> classifyGesture (Finite 1.0) NONE = CLOSED
   \<and> classifyGesture (Finite 1.5) CLOSED = CLOSED
   \<and> classifyGesture (Finite 1.8) CLOSED = OPEN
   \<and> map (gesture \<circ> handData)
        (trace [handFrame 1 1.0, handFrame 1 1.5, handFrame 1 1.5, handFrame 1 1.8] initialApp)
       = [CLOSED, CLOSED, CLOSED, OPEN]"
proof -
  have lt_gt: "js_lt c 1.4 \<Longrightarrow> \<not> js_gt c 1.6" by (cases c) simp_all
  have scenario: "map (gesture \<circ> handData)
        (trace [handFrame 1 1.0, handFrame 1 1.5, handFrame 1 1.5, handFrame 1 1.8] initialApp)
       = [CLOSED, CLOSED, CLOSED, OPEN]"
    by (simp add: handFrame_step js_div_def classifyGesture_def)
  show ?thesis
    using lt_gt scenario by (auto simp add: classifyGesture_def)
qed

text \<open>The three branches of C1 at a reading below the band, at \<open>Infinity\<close> and at
  \<open>NaN\<close>.\<close>

theorem classifier_cases_witness:
  "js_lt (Finite 1.0) 1.4 \<and> classifyGesture (Finite 1.0) OPEN = CLOSED
   \<and> js_gt PosInfinity 1.6 \<and> classifyGesture PosInfinity CLOSED = OPEN
   \<and> \<not> js_lt NaN 1.4 \<and> \<not> js_gt NaN 1.6 \<and> classifyGesture NaN NONE = NONE"
  using classifier_cases [of "Finite 1.0" OPEN] classifier_cases [of PosInfinity CLOSED]
    classifier_cases [of NaN NONE]
  by simp

subsection \<open>The depth mapping\<close>

text \<open>
  C6. For every real \<open>palmSize\<close>, \<open>zoomFactor palmSize\<close> lies in \<open>[0, 1]\<close>; it is
  strictly increasing on the open interval from 0.05 to 0.3, where it is
  \<open>(palmSize - 0.05) * 4\<close>; it is 0 for every \<open>palmSize\<close> up to 0.05 and 1 for every
  \<open>palmSize\<close> from 0.3 on.
\<close>

theorem zoomFactor_clamped_monotone:
  "0 \<le> zoomFactor palmSize \<and> zoomFactor palmSize \<le> 1
   \<and> (0.05 < p \<and> p < q \<and> q < 0.3 \<longrightarrow> zoomFactor p < zoomFactor q)
   \<and> (palmSize \<le> 0.05 \<longrightarrow> zoomFactor palmSize = 0)
   \<and> (0.3 \<le> palmSize \<longrightarrow> zoomFactor palmSize = 1)
   \<and> (0.05 \<le> palmSize \<and> palmSize \<le> 0.3 \<longrightarrow> zoomFactor palmSize = (palmSize - 0.05) * 4.0)"
  by (simp add: zoomFactor_def min_def max_def)

text \<open>C6 at the palm sizes 0.01, 0.1, 0.2 and 0.5.\<close>

theorem zoomFactor_clamped_monotone_witness:
  "(0.05::real) < 0.1 \<and> (0.1::real) < 0.2 \<and> (0.2::real) < 0.3 \<and> zoomFactor 0.1 < zoomFactor 0.2
   \<and> (0.01::real) \<le> 0.05 \<and> zoomFactor 0.01 = 0
   \<and> (0.3::real) \<le> 0.5 \<and> zoomFactor 0.5 = 1
   \<and> zoomFactor 0.1 = 0.2"
  using zoomFactor_clamped_monotone [of "0.01" "0.1" "0.2"]
    zoomFactor_clamped_monotone [of "0.5" "0.1" "0.2"]
    zoomFactor_clamped_monotone [of "0.1" "0.1" "0.2"]
  by simp

subsection \<open>The state machine\<close>

text \<open>
  C3. The state machine is edge-triggered. At every detection tick of a session (after
  any events from the initial state), the calls of \<open>transitionTo\<close> made by the tick are
  those of \<open>spec_transitions\<close> for the gesture stored before the tick and the one stored
  after: none when the two are the same, one to \<open>FORMED\<close> when the gesture has changed
  to \<open>CLOSED\<close>, one to \<open>CHAOS\<close> when it has changed to \<open>OPEN\<close>. The same holds
  in any state for the tick that follows a tick on a hand with all its landmarks, whose
  classifier output is then the previous value.
\<close>

theorem transitions_edge_triggered:
  "transitionLog (step (Frame d) (run es initialApp))
     = transitionLog (run es initialApp) @
       spec_transitions (gesture (handData (run es initialApp)))
                        (gesture (handData (step (Frame d) (run es initialApp))))
   \<and> (20 < length landmarks \<longrightarrow>
        transitionLog (step (Frame d) (step (Frame (Some (Some (landmarks # rest)))) s))
          = transitionLog (step (Frame (Some (Some (landmarks # rest)))) s) @
            spec_transitions
              (gesture (handData (step (Frame (Some (Some (landmarks # rest)))) s)))
              (gesture (handData (step (Frame d) (step (Frame (Some (Some (landmarks # rest)))) s)))))"
proof (intro conjI impI)
  have "lastGesture (run es initialApp) = gesture (handData (run es initialApp))"
    by (rule run_inv [OF initialApp_inv])
  from frame_log [OF this, of d]
  show "transitionLog (step (Frame d) (run es initialApp))
     = transitionLog (run es initialApp) @
       spec_transitions (gesture (handData (run es initialApp)))
                        (gesture (handData (step (Frame d) (run es initialApp))))"
    by (simp add: spec_transitions_def)
next
  assume len: "20 < length landmarks"
  define s1 where "s1 = step (Frame (Some (Some (landmarks # rest)))) s"
  from complete_hand_classified [OF len, of rest s]
  have "lastGesture s1 = gesture (handData s1)"
    by (auto simp add: s1_def predictWebcam_def)
  from frame_log [OF this, of d]
  have "transitionLog (step (Frame d) s1)
          = transitionLog s1 @
            spec_transitions (gesture (handData s1)) (gesture (handData (step (Frame d) s1)))"
    by (simp add: spec_transitions_def)
  then show "transitionLog (step (Frame d) (step (Frame (Some (Some (landmarks # rest)))) s))
          = transitionLog (step (Frame (Some (Some (landmarks # rest)))) s) @
            spec_transitions
              (gesture (handData (step (Frame (Some (Some (landmarks # rest)))) s)))
              (gesture (handData (step (Frame d) (step (Frame (Some (Some (landmarks # rest)))) s))))"
    unfolding s1_def .
qed

text \<open>C3 on a fist followed by an open hand, and on a fist followed by a hand in the
  dead band.\<close>

theorem transitions_edge_triggered_witness:
  "20 < length (testHand 1 1)
   \<and> gesture (handData (step (handFrame 1 1) initialApp)) = CLOSED
   \<and> gesture (handData (step (handFrame 1 2) (step (handFrame 1 1) initialApp))) = OPEN
   \<and> transitionLog (step (handFrame 1 2) (step (handFrame 1 1) initialApp))
       = transitionLog (step (handFrame 1 1) initialApp) @ [CHAOS]
   \<and> gesture (handData (step (handFrame 1 1.5) (step (handFrame 1 1) initialApp))) = CLOSED
   \<and> transitionLog (step (handFrame 1 1.5) (step (handFrame 1 1) initialApp))
       = transitionLog (step (handFrame 1 1) initialApp)"
  using transitions_edge_triggered
          [of "Some (Some [testHand 1 2])" "[]" "testHand 1 1" "[]" initialApp]
        transitions_edge_triggered
          [of "Some (Some [testHand 1 1.5])" "[]" "testHand 1 1" "[]" initialApp]
  by (simp add: handFrame_def [symmetric] testHand_nth handFrame_step js_div_def
        classifyGesture_def spec_transitions_def)

text \<open>
  C4. A detection tick with no hand (\<open>results.landmarks\<close> missing or empty) sets
  \<open>isPresent\<close> to false, leaves \<open>x\<close>, \<open>y\<close>, \<open>z\<close> and \<open>gesture\<close> of the hand
  data as they were, calls \<open>transitionTo\<close> not at all and leaves the application state
  alone. So does any number of such ticks in a row; in particular, with the gesture
  \<open>CLOSED\<close> and the state \<open>FORMED\<close> before them, the gesture is still \<open>CLOSED\<close>
  and the state still \<open>FORMED\<close> after them.
\<close>

theorem absent_tick_frame:
  "(noHand results \<longrightarrow>
      processResults results s = (None, s\<lparr> handData := (handData s)\<lparr> isPresent := False \<rparr> \<rparr>)
      \<and> \<not> isPresent (handData (step (Frame (Some results)) s))
      \<and> hand_x (handData (step (Frame (Some results)) s)) = hand_x (handData s)
      \<and> hand_y (handData (step (Frame (Some results)) s)) = hand_y (handData s)
      \<and> hand_z (handData (step (Frame (Some results)) s)) = hand_z (handData s)
      \<and> gesture (handData (step (Frame (Some results)) s)) = gesture (handData s)
      \<and> transitionLog (step (Frame (Some results)) s) = transitionLog s
      \<and> activeState (step (Frame (Some results)) s) = activeState s)
   \<and> (list_all absentFrame es \<and> es \<noteq> [] \<longrightarrow>
        \<not> isPresent (handData (run es s))
        \<and> hand_x (handData (run es s)) = hand_x (handData s)
        \<and> hand_y (handData (run es s)) = hand_y (handData s)
        \<and> hand_z (handData (run es s)) = hand_z (handData s)
        \<and> gesture (handData (run es s)) = gesture (handData s)
        \<and> transitionLog (run es s) = transitionLog s
        \<and> activeState (run es s) = activeState s)
   \<and> (list_all absentFrame es \<and> gesture (handData s) = CLOSED \<and> activeState s = FORMED \<longrightarrow>
        gesture (handData (run es s)) = CLOSED \<and> activeState (run es s) = FORMED)"
  by (simp add: predictWebcam_def processResults_noHand absent_run)

text \<open>C4 on the scenario of the specification: a fist from the initial state, then ten
  ticks with no hand.\<close>

theorem absent_tick_frame_witness:
  "noHand None \<and> noHand (Some [])
   \<and> list_all absentFrame (replicate 10 (Frame (Some None)))
   \<and> gesture (handData (step (handFrame 1 1) initialApp)) = CLOSED
   \<and> activeState (step (handFrame 1 1) initialApp) = FORMED
   \<and> isPresent (handData (step (handFrame 1 1) initialApp))
   \<and> activeState (run (handFrame 1 1 # replicate 10 (Frame (Some None))) initialApp) = FORMED
   \<and> gesture (handData (run (handFrame 1 1 # replicate 10 (Frame (Some None))) initialApp)) = CLOSED
   \<and> \<not> isPresent (handData (run (handFrame 1 1 # replicate 10 (Frame (Some None))) initialApp))
   \<and> \<not> isPresent (handData (step (Frame (Some (Some []))) (step (handFrame 1 1) initialApp)))"
  using absent_tick_frame [of None "step (handFrame 1 1) initialApp" "replicate 10 (Frame (Some None))"]
    absent_tick_frame [of "Some []" "step (handFrame 1 1) initialApp" "replicate 10 (Frame (Some None))"]
  by (simp add: handFrame_step js_div_def classifyGesture_def list_all_length initialApp_def)

subsection \<open>The unguarded division\<close>

text \<open>
  C8. \<open>compactness\<close> is \<open>avgDist / palmSize\<close> with no guard. On every hand with all
  its landmarks whose wrist (landmark 0) has the coordinates of landmark 9,
  \<open>palmSize\<close> is 0, no exception is raised before the division, and its result, the
  input of the classifier, is not a finite number: it is \<open>Infinity\<close> (the gesture then
  becomes \<open>OPEN\<close>) or, when the fingertips are at the wrist too, \<open>NaN\<close> (the gesture
  then stays what it was). When the two landmarks differ, \<open>palmSize\<close> is positive and
  the compactness is finite.
\<close>

theorem division_by_zero_palm:
  assumes "20 < length landmarks"
  shows "(lm_x (landmarks ! 0) = lm_x (landmarks ! 9)
          \<and> lm_y (landmarks ! 0) = lm_y (landmarks ! 9)
          \<and> lm_z (landmarks ! 0) = lm_z (landmarks ! 9) \<longrightarrow>
            palmSizeOf (landmarks ! 0) (landmarks ! 9) = 0
            \<and> fst (processResults (Some (landmarks # rest)) s) = None
            \<and> (\<exists>c. frameCompactness landmarks (landmarks ! 0)
                       (palmSizeOf (landmarks ! 0) (landmarks ! 9)) = Inr c
                  \<and> \<not> isFinite c
                  \<and> (c = PosInfinity \<or> c = NaN)
                  \<and> gesture (handData (snd (processResults (Some (landmarks # rest)) s)))
                       = classifyGesture c (lastGesture s)
                  \<and> gesture (handData (snd (processResults (Some (landmarks # rest)) s)))
                       = (if c = PosInfinity then OPEN else lastGesture s)))
    \<and> (\<not> (lm_x (landmarks ! 0) = lm_x (landmarks ! 9)
            \<and> lm_y (landmarks ! 0) = lm_y (landmarks ! 9)
            \<and> lm_z (landmarks ! 0) = lm_z (landmarks ! 9)) \<longrightarrow>
            0 < palmSizeOf (landmarks ! 0) (landmarks ! 9)
            \<and> (\<exists>c. frameCompactness landmarks (landmarks ! 0)
                       (palmSizeOf (landmarks ! 0) (landmarks ! 9)) = Inr c
                  \<and> isFinite c))"
proof -
  from complete_hand_classified [OF assms, of rest s] obtain t where t: "0 \<le> t"
    "frameCompactness landmarks (landmarks ! 0) (palmSizeOf (landmarks ! 0) (landmarks ! 9))
       = Inr (js_div (t / 4) (palmSizeOf (landmarks ! 0) (landmarks ! 9)))"
    "fst (processResults (Some (landmarks # rest)) s) = None"
    "gesture (handData (snd (processResults (Some (landmarks # rest)) s)))
       = classifyGesture (js_div (t / 4) (palmSizeOf (landmarks ! 0) (landmarks ! 9))) (lastGesture s)"
    by blast
  define c where "c = js_div (t / 4) 0"
  have c: "c = PosInfinity \<or> c = NaN"
    using t(1) by (simp add: c_def js_div_def)
  then have nf: "\<not> isFinite c" by auto
  have cl: "classifyGesture c (lastGesture s) = (if c = PosInfinity then OPEN else lastGesture s)"
    using c by (auto simp add: classifyGesture_def)
  have zero: "palmSizeOf (landmarks ! 0) (landmarks ! 9) = 0 \<longleftrightarrow>
      lm_x (landmarks ! 0) = lm_x (landmarks ! 9)
      \<and> lm_y (landmarks ! 0) = lm_y (landmarks ! 9)
      \<and> lm_z (landmarks ! 0) = lm_z (landmarks ! 9)"
    by (rule palmSizeOf_zero_iff)
  have nonneg: "0 \<le> palmSizeOf (landmarks ! 0) (landmarks ! 9)"
    by (simp add: palmSizeOf_def Let_def)
  show ?thesis
  proof (cases "palmSizeOf (landmarks ! 0) (landmarks ! 9) = 0")
    case True
    with zero t(2,3,4) c nf cl show ?thesis unfolding c_def by simp
  next
    case False
    with nonneg have "0 < palmSizeOf (landmarks ! 0) (landmarks ! 9)" by simp
    with False zero t(2) show ?thesis by (simp add: js_div_def)
  qed
qed

text \<open>C8 on test hands whose landmark 9 is at the wrist, and on one where it is not.\<close>

theorem division_by_zero_palm_witness:
  "20 < length (testHand 0 1)
   \<and> lm_x (testHand 0 1 ! 0) = lm_x (testHand 0 1 ! 9)
   \<and> lm_y (testHand 0 1 ! 0) = lm_y (testHand 0 1 ! 9)
   \<and> lm_z (testHand 0 1 ! 0) = lm_z (testHand 0 1 ! 9)
   \<and> palmSizeOf (testHand 0 1 ! 0) (testHand 0 1 ! 9) = 0
   \<and> frameCompactness (testHand 0 1) (testHand 0 1 ! 0) 0 = Inr PosInfinity
   \<and> frameCompactness (testHand 0 0) (testHand 0 0 ! 0) 0 = Inr NaN
   \<and> gesture (handData (snd (processResults (Some [testHand 0 1]) initialApp))) = OPEN
   \<and> lm_x (testHand 1 1 ! 0) \<noteq> lm_x (testHand 1 1 ! 9)
   \<and> frameCompactness (testHand 1 1) (testHand 1 1 ! 0)
        (palmSizeOf (testHand 1 1 ! 0) (testHand 1 1 ! 9)) = Inr (Finite 1)"
  using division_by_zero_palm [of "testHand 0 1" "[]" initialApp]
    division_by_zero_palm [of "testHand 1 1" "[]" initialApp]
  by (simp add: testHand_nth testHand_compactness testHand_palmSize js_div_def classifyGesture_def)

subsection \<open>No way back to NONE\<close>

text \<open>
  C9 (as amended). For every compactness value \<open>c\<close> and previous gesture \<open>g\<close>, the
  classifier returns \<open>NONE\<close> exactly when \<open>g\<close> is \<open>NONE\<close> and \<open>c\<close> is neither
  below 1.4 nor above 1.6, which is the case exactly when \<open>c\<close> lies in the dead band
  \<open>[1.4, 1.6]\<close> or is \<open>NaN\<close>. Hence, in every session, once the stored gesture is
  \<open>OPEN\<close> or \<open>CLOSED\<close>, it is never \<open>NONE\<close> again, whatever events follow; the
  same holds for \<open>lastGestureRef\<close>.
\<close>

theorem none_only_from_none:
  "(classifyGesture c g = NONE \<longleftrightarrow> g = NONE \<and> \<not> js_lt c 1.4 \<and> \<not> js_gt c 1.6)
   \<and> (\<not> js_lt c 1.4 \<and> \<not> js_gt c 1.6 \<longleftrightarrow> inDeadBand c \<or> c = NaN)
   \<and> (gesture (handData (run es initialApp)) \<noteq> NONE \<longrightarrow>
        gesture (handData (run (es @ es') initialApp)) \<noteq> NONE
        \<and> lastGesture (run (es @ es') initialApp) \<noteq> NONE)"
proof (intro conjI impI)
  show "classifyGesture c g = NONE \<longleftrightarrow> g = NONE \<and> \<not> js_lt c 1.4 \<and> \<not> js_gt c 1.6"
    by (simp add: classifyGesture_def)
  show "\<not> js_lt c 1.4 \<and> \<not> js_gt c 1.6 \<longleftrightarrow> inDeadBand c \<or> c = NaN"
    by (cases c) auto
next
  assume a: "gesture (handData (run es initialApp)) \<noteq> NONE"
  have i: "lastGesture (run es initialApp) = gesture (handData (run es initialApp))"
    by (rule run_inv [OF initialApp_inv])
  from run_not_NONE [OF i a, of es']
  show g: "gesture (handData (run (es @ es') initialApp)) \<noteq> NONE"
    by (simp add: run_append)
  have "lastGesture (run (es @ es') initialApp) = gesture (handData (run (es @ es') initialApp))"
    by (rule run_inv [OF initialApp_inv])
  with g show "lastGesture (run (es @ es') initialApp) \<noteq> NONE" by simp
qed

text \<open>C9 on a session: an open hand, then a hand in the dead band, a tick with no hand,
  and a hand with all landmarks in one point.\<close>

theorem none_only_from_none_witness:
  "gesture (handData (run [handFrame 1 2] initialApp)) \<noteq> NONE
   \<and> gesture (handData (run ([handFrame 1 2] @ [handFrame 1 1.5, Frame (Some None), handFrame 0 0])
        initialApp)) \<noteq> NONE"
  using none_only_from_none [of NaN NONE "[handFrame 1 2]"
          "[handFrame 1 1.5, Frame (Some None), handFrame 0 0]"]
  by (simp add: handFrame_step js_div_def classifyGesture_def)

text \<open>
  C9 as stated places every compactness for which \<open>NONE\<close> is returned in the dead
  band. A hand with all landmarks in one point has the compactness \<open>0 / 0\<close>, which
  is \<open>NaN\<close>; from \<open>NONE\<close> the classifier returns \<open>NONE\<close> on it, and \<open>NaN\<close>
  is in no interval.
\<close>

theorem none_outside_dead_band:
  "frameCompactness (testHand 0 0) (testHand 0 0 ! 0)
       (palmSizeOf (testHand 0 0 ! 0) (testHand 0 0 ! 9)) = Inr NaN
   \<and> classifyGesture NaN NONE = NONE
   \<and> \<not> inDeadBand NaN
   \<and> gesture (handData (step (handFrame 0 0) initialApp)) = NONE"
  by (simp add: testHand_nth testHand_compactness testHand_palmSize js_div_def classifyGesture_def
        handFrame_step initialApp_def)

subsection \<open>The blend parameter\<close>

text \<open>Each render tick multiplies the distance to the target by \<open>1 - 2 * delta\<close>.\<close>

lemma targetStateValue_cases: "targetStateValue st = 0 \<or> targetStateValue st = 1"
  by (simp add: targetStateValue_def)

lemma blendStep_distance:
  "blendStep st delta u - targetStateValue st = (1 - 2 * delta) * (u - targetStateValue st)"
  by (simp add: blendStep_def lerp_def algebra_simps)

lemma blendTicks_distance:
  "blendTicks n st delta u - targetStateValue st = (1 - 2 * delta) ^ n * (u - targetStateValue st)"
proof (induction n arbitrary: u)
  case 0
  then show ?case by simp
next
  case (Suc n)
  have "blendTicks (Suc n) st delta u - targetStateValue st
          = (1 - 2 * delta) ^ n * (blendStep st delta u - targetStateValue st)"
    using Suc.IH [of "blendStep st delta u"] by simp
  also have "\<dots> = (1 - 2 * delta) ^ n * ((1 - 2 * delta) * (u - targetStateValue st))"
    by (simp only: blendStep_distance)
  finally show ?case by (simp add: mult.assoc power_commutes)
qed

text \<open>The damping factor after \<open>n\<close> ticks is at most \<open>1 / (1 + n * t)\<close>.\<close>

lemma damping_bound:
  fixes t :: real
  assumes "0 \<le> t" "t \<le> 1"
  shows "(1 - t) ^ n * (1 + real n * t) \<le> 1"
proof -
  have b: "1 + real n * t \<le> (1 + t) ^ n"
    using Bernoulli_inequality [of t n] assms by simp
  have "(1 - t) ^ n * (1 + t) ^ n = ((1 - t) * (1 + t)) ^ n"
    by (simp add: power_mult_distrib)
  also have "\<dots> = (1 - t * t) ^ n" by (simp add: algebra_simps)
  also have "\<dots> \<le> 1"
  proof (rule power_le_one)
    have "t * t \<le> 1" using assms by (simp add: mult_le_one)
    then show "0 \<le> 1 - t * t" by simp
    show "1 - t * t \<le> 1" by simp
  qed
  finally have le1: "(1 - t) ^ n * (1 + t) ^ n \<le> 1" .
  have "0 \<le> (1 - t) ^ n" using assms by simp
  then have "(1 - t) ^ n * (1 + real n * t) \<le> (1 - t) ^ n * (1 + t) ^ n"
    using b by (rule mult_left_mono [rotated])
  with le1 show ?thesis by linarith
qed

lemma blendTicks_converges:
  assumes d: "0 < delta" "delta \<le> 1 / 2"
    and e: "0 < eps"
    and n: "\<bar>u - targetStateValue st\<bar> \<le> eps * (2 * delta * real n)"
  shows "\<bar>blendTicks n st delta u - targetStateValue st\<bar> \<le> eps"
proof -
  define t where "t = 2 * delta"
  have t: "0 \<le> t" "t \<le> 1" using d by (simp_all add: t_def)
  define D where "D = \<bar>u - targetStateValue st\<bar>"
  have D0: "0 \<le> D" by (simp add: D_def)
  have eq: "\<bar>blendTicks n st delta u - targetStateValue st\<bar> = (1 - t) ^ n * D"
    using t by (simp add: blendTicks_distance abs_mult D_def t_def)
  have p0: "0 \<le> (1 - t) ^ n" using t by simp
  have "D \<le> eps * (1 + real n * t)"
    using n e by (simp add: D_def t_def algebra_simps)
  then have "(1 - t) ^ n * D \<le> (1 - t) ^ n * (eps * (1 + real n * t))"
    using p0 by (rule mult_left_mono)
  also have "\<dots> = eps * ((1 - t) ^ n * (1 + real n * t))" by simp
  also have "\<dots> \<le> eps * 1"
    using damping_bound [OF t, of n] e by (intro mult_left_mono) simp_all
  finally show ?thesis using eq by simp
qed

text \<open>With \<open>delta\<close> above one half every tick that starts off the target ends on its
  other side.\<close>

lemma blendStep_overshoots_large_delta:
  assumes "1 / 2 < delta"
  shows "(u < targetStateValue st \<longrightarrow> targetStateValue st < blendStep st delta u)
       \<and> (targetStateValue st < u \<longrightarrow> blendStep st delta u < targetStateValue st)"
proof -
  have k: "1 - 2 * delta < 0" using assms by simp
  have step: "blendStep st delta u - targetStateValue st
                = (1 - 2 * delta) * (u - targetStateValue st)"
    by (rule blendStep_distance)
  have "0 < (1 - 2 * delta) * (u - targetStateValue st)" if "u < targetStateValue st"
    using that k by (simp add: mult_neg_neg)
  moreover have "(1 - 2 * delta) * (u - targetStateValue st) < 0" if "targetStateValue st < u"
    using that k by (simp add: mult_neg_pos)
  ultimately show ?thesis using step by auto
qed

text \<open>
  C2 (as amended). The render tick sets the blend parameter to
  \<open>lerp value target (2 * deltaTime)\<close>, with no clamp of the factor. For every state
  (so for both targets, 0 and 1) and every \<open>deltaTime\<close> with
  \<open>0 < deltaTime \<le> 1/2\<close>, a tick moves the value toward the target and not beyond
  it, strictly closer unless it is there; after \<open>n\<close> ticks the distance to the target
  is \<open>(1 - 2 * deltaTime) ^ n\<close> times the first one, and it is at most \<open>eps\<close> as
  soon as \<open>n * 2 * deltaTime * eps\<close> is at least the first distance. In this range the
  tick is the update of the specification, with its \<open>min\<close>.
\<close>

theorem blend_monotone_small_delta:
  assumes "0 < delta" and "delta \<le> 1 / 2"
  shows "(targetStateValue st = 0 \<or> targetStateValue st = 1)
    \<and> (u \<le> targetStateValue st \<longrightarrow>
          u \<le> blendStep st delta u \<and> blendStep st delta u \<le> targetStateValue st)
    \<and> (targetStateValue st \<le> u \<longrightarrow>
          targetStateValue st \<le> blendStep st delta u \<and> blendStep st delta u \<le> u)
    \<and> (u \<noteq> targetStateValue st \<longrightarrow>
          \<bar>blendStep st delta u - targetStateValue st\<bar> < \<bar>u - targetStateValue st\<bar>)
    \<and> \<bar>blendTicks n st delta u - targetStateValue st\<bar>
          = (1 - 2 * delta) ^ n * \<bar>u - targetStateValue st\<bar>
    \<and> (0 < eps \<and> \<bar>u - targetStateValue st\<bar> \<le> eps * (2 * delta * real n) \<longrightarrow>
          \<bar>blendTicks n st delta u - targetStateValue st\<bar> \<le> eps)
    \<and> blendStep st delta u = spec_blendStep (targetStateValue st) delta u"
proof -
  define T where "T = targetStateValue st"
  define k where "k = 1 - 2 * delta"
  have k: "0 \<le> k" "k < 1" using assms by (simp_all add: k_def)
  have step: "blendStep st delta u - T = k * (u - T)"
    unfolding T_def k_def by (rule blendStep_distance)
  have up: "u \<le> blendStep st delta u \<and> blendStep st delta u \<le> T" if "u \<le> T"
  proof -
    have "k * (u - T) \<le> 0" using that k by (simp add: mult_nonneg_nonpos)
    moreover have "u - T \<le> k * (u - T)"
      using that k mult_right_mono_neg [of k 1 "u - T"] by simp
    ultimately show ?thesis using step by linarith
  qed
  have down: "T \<le> blendStep st delta u \<and> blendStep st delta u \<le> u" if "T \<le> u"
  proof -
    have "0 \<le> k * (u - T)" using that k by simp
    moreover have "k * (u - T) \<le> u - T"
      using that k mult_right_mono [of k 1 "u - T"] by simp
    ultimately show ?thesis using step by linarith
  qed
  have strict: "\<bar>blendStep st delta u - T\<bar> < \<bar>u - T\<bar>" if "u \<noteq> T"
  proof -
    have "\<bar>blendStep st delta u - T\<bar> = k * \<bar>u - T\<bar>"
      using step k by (simp add: abs_mult)
    moreover have "0 < \<bar>u - T\<bar>" using that by simp
    ultimately show ?thesis using k by simp
  qed
  have ticks: "\<bar>blendTicks n st delta u - T\<bar> = k ^ n * \<bar>u - T\<bar>"
    using k by (simp add: blendTicks_distance T_def k_def abs_mult)
  have conv: "\<bar>blendTicks n st delta u - T\<bar> \<le> eps"
    if "0 < eps \<and> \<bar>u - T\<bar> \<le> eps * (2 * delta * real n)"
    using that blendTicks_converges [OF assms, of eps u st n] by (simp add: T_def)
  have spec: "blendStep st delta u = spec_blendStep T delta u"
    using assms by (simp add: blendStep_def spec_blendStep_def lerp_def T_def algebra_simps)
  show ?thesis
    using targetStateValue_cases [of st] up down strict ticks conv spec
    unfolding T_def k_def by blast
qed

text \<open>C2 at \<open>deltaTime = 1/4\<close>, from 0 toward the target 1: one tick gives 1/2, two
  ticks leave the distance 1/4.\<close>

theorem blend_monotone_small_delta_witness:
  "(0::real) < 1 / 4 \<and> (1 / 4 :: real) \<le> 1 / 2
   \<and> blendStep CHAOS (1 / 4) 0 = 1 / 2
   \<and> (0::real) \<le> targetStateValue CHAOS
   \<and> 0 \<le> blendStep CHAOS (1 / 4) 0 \<and> blendStep CHAOS (1 / 4) 0 \<le> targetStateValue CHAOS
   \<and> \<bar>blendTicks 2 CHAOS (1 / 4) 0 - targetStateValue CHAOS\<bar> = 1 / 4"
  using blend_monotone_small_delta [of "1 / 4" CHAOS 0 2 1]
  by (simp add: targetStateValue_def blendStep_def lerp_def power2_eq_square)

text \<open>
  C2 as stated, for every positive \<open>deltaTime\<close>: with \<open>deltaTime = 1\<close> (a frame after
  a pause of a second) the factor is 2, and from 0 the value goes to 2, beyond the target
  1, then back to 0, and so on.
\<close>

theorem blend_overshoots:
  "targetStateValue CHAOS = 1 \<and> blendStep CHAOS 1 0 = 2 \<and> blendStep CHAOS 1 2 = 0
   \<and> blendTicks 2 CHAOS 1 0 = 0 \<and> blendTicks 3 CHAOS 1 0 = 2"
  by (simp add: targetStateValue_def blendStep_def lerp_def numeral_3_eq_3 numeral_2_eq_2)

subsection \<open>The camera rig\<close>

text \<open>
  C5. With a hand present and the same hand data, the camera rig moves the camera toward
  the target \<open>(x * 50, y * 25 + 2, lerp 40 12 z)\<close> when the application state is
  \<open>CHAOS\<close> and toward \<open>(x * 30, y * 15 + 5, lerp 35 12 z)\<close> in every other state:
  horizontal range 50 against 30, vertical range 25 against 15, vertical offset 2 against
  5, maximum distance 40 against 35, minimum distance 12 in both. The two ranges and the
  maximum distance of \<open>CHAOS\<close> are strictly larger than those of \<open>FORMED\<close>.
\<close>

theorem camera_presets:
  "(isPresent hand \<longrightarrow>
      cameraRigFrame CHAOS hand elapsedTime delta camera =
        \<lparr> cam_x = lerp (cam_x camera) (hand_x hand * 50) (2 * delta),
          cam_y = lerp (cam_y camera) (hand_y hand * 25 + 2) (2 * delta),
          cam_z = lerp (cam_z camera) (lerp 40 12 (hand_z hand)) (2 * delta) \<rparr>
      \<and> (st \<noteq> CHAOS \<longrightarrow>
           cameraRigFrame st hand elapsedTime delta camera =
             \<lparr> cam_x = lerp (cam_x camera) (hand_x hand * 30) (2 * delta),
               cam_y = lerp (cam_y camera) (hand_y hand * 15 + 5) (2 * delta),
               cam_z = lerp (cam_z camera) (lerp 35 12 (hand_z hand)) (2 * delta) \<rparr>))
   \<and> rangeX (st = CHAOS) = (if st = CHAOS then 50 else 30)
   \<and> rangeY (st = CHAOS) = (if st = CHAOS then 25 else 15)
   \<and> offsetY (st = CHAOS) = (if st = CHAOS then 2 else 5)
   \<and> maxDist (st = CHAOS) = (if st = CHAOS then 40 else 35)
   \<and> minDist = 12
   \<and> rangeX (FORMED = CHAOS) < rangeX (CHAOS = CHAOS)
   \<and> rangeY (FORMED = CHAOS) < rangeY (CHAOS = CHAOS)
   \<and> maxDist (FORMED = CHAOS) < maxDist (CHAOS = CHAOS)"
  by (simp add: Let_def cameraRigFrame_def rangeX_def rangeY_def offsetY_def maxDist_def minDist_def)

text \<open>C5 on a hand at \<open>x = 1\<close>, \<open>y = 1\<close>, \<open>z = 0\<close> with \<open>delta = 1/2\<close>, when the
  camera reaches its target in one frame.\<close>

theorem camera_presets_witness:
  "isPresent \<lparr> hand_x = 1, hand_y = 1, hand_z = 0, gesture = OPEN, isPresent = True \<rparr>
   \<and> cameraRigFrame CHAOS \<lparr> hand_x = 1, hand_y = 1, hand_z = 0, gesture = OPEN, isPresent = True \<rparr>
        0 (1 / 2) \<lparr> cam_x = 0, cam_y = 2, cam_z = 25 \<rparr>
       = \<lparr> cam_x = 50, cam_y = 27, cam_z = 40 \<rparr>
   \<and> FORMED \<noteq> CHAOS
   \<and> cameraRigFrame FORMED \<lparr> hand_x = 1, hand_y = 1, hand_z = 0, gesture = OPEN, isPresent = True \<rparr>
        0 (1 / 2) \<lparr> cam_x = 0, cam_y = 2, cam_z = 25 \<rparr>
       = \<lparr> cam_x = 30, cam_y = 20, cam_z = 35 \<rparr>"
  using camera_presets [of "\<lparr> hand_x = 1, hand_y = 1, hand_z = 0, gesture = OPEN, isPresent = True \<rparr>"
          0 "1 / 2" "\<lparr> cam_x = 0, cam_y = 2, cam_z = 25 \<rparr>" FORMED]
  by (simp add: lerp_def)

text \<open>
  C10. The blend target is 1 if and only if the application state is \<open>CHAOS\<close>. In
  every other state the target is 0, the render tick of \<open>MagicTree\<close> is that of
  \<open>FORMED\<close>, and so is the frame of the camera rig, which uses the presets of
  \<open>FORMED\<close>. \<open>transitionTo\<close> puts the application into whichever of the three states
  it is called with, so \<open>FOCUS\<close> can be reached, and all this holds there.
\<close>

theorem blend_target_chaos_only:
  "(targetStateValue st = 1 \<longleftrightarrow> st = CHAOS)
   \<and> (st \<noteq> CHAOS \<longrightarrow> targetStateValue st = 0
        \<and> blendStep st delta u = lerp u 0 (2 * delta)
        \<and> magicTreeFrame st elapsedTime dpr delta materialRef
            = magicTreeFrame FORMED elapsedTime dpr delta materialRef
        \<and> cameraRigFrame st hand elapsedTime delta camera
            = cameraRigFrame FORMED hand elapsedTime delta camera)
   \<and> activeState (transitionTo FORMED s) = FORMED
   \<and> activeState (transitionTo CHAOS s) = CHAOS
   \<and> activeState (transitionTo FOCUS s) = FOCUS
   \<and> targetStateValue FOCUS = 0
   \<and> cameraRigFrame (activeState (transitionTo FOCUS s)) hand elapsedTime delta camera
       = cameraRigFrame FORMED hand elapsedTime delta camera"
  by (simp add: Let_def targetStateValue_def blendStep_def magicTreeFrame_def cameraRigFrame_def
        transitionTo_def split: option.splits)

text \<open>C10 in the state \<open>FOCUS\<close>, reached from the initial state by one call of
  \<open>transitionTo\<close>.\<close>

theorem blend_target_chaos_only_witness:
  "FOCUS \<noteq> CHAOS \<and> targetStateValue FOCUS = 0
   \<and> blendStep FOCUS (1 / 4) 1 = 1 / 2
   \<and> activeState (run [Click FOCUS] initialApp) = FOCUS
   \<and> cameraRigFrame FOCUS \<lparr> hand_x = 1, hand_y = 1, hand_z = 0, gesture = OPEN, isPresent = True \<rparr>
        0 (1 / 2) \<lparr> cam_x = 0, cam_y = 2, cam_z = 25 \<rparr>
       = \<lparr> cam_x = 30, cam_y = 20, cam_z = 35 \<rparr>"
  using blend_target_chaos_only [of FOCUS "1 / 4" 1 0 1 None
          "\<lparr> hand_x = 1, hand_y = 1, hand_z = 0, gesture = OPEN, isPresent = True \<rparr>"
          "\<lparr> cam_x = 0, cam_y = 2, cam_z = 25 \<rparr>" initialApp]
  by (simp add: Let_def blendStep_def targetStateValue_def lerp_def cameraRigFrame_def rangeX_def rangeY_def offsetY_def maxDist_def
        minDist_def transitionTo_def)

subsection \<open>The particle generator\<close>

text \<open>One pass of the loop writes point \<open>i\<close> of the arrays and no other, and makes
  seven calls of \<open>Math.random\<close>.\<close>

lemma loopBody_lengths:
  "length (positionsTree (snd (loopBody rnd count h r i st))) = length (positionsTree (snd st))"
  "length (positionsSphere (snd (loopBody rnd count h r i st))) = length (positionsSphere (snd st))"
  "length (randoms (snd (loopBody rnd count h r i st))) = length (randoms (snd st))"
  "fst (loopBody rnd count h r i st) = fst st + 7"
  by (simp_all add: loopBody_def Let_def)

lemma loopBody_sphere_same:
  assumes "i * 3 + 2 < length (positionsSphere (snd st))"
  shows "pointAt (positionsSphere (snd (loopBody rnd count h r i st))) i = spherePoint rnd (fst st)"
  using assms by (simp add: loopBody_def Let_def pointAt_def spherePoint_def)

lemma loopBody_sphere_other:
  assumes "j \<noteq> i"
  shows "pointAt (positionsSphere (snd (loopBody rnd count h r i st))) j
           = pointAt (positionsSphere (snd st)) j"
proof -
  have "j * 3 \<noteq> i * 3" "j * 3 \<noteq> i * 3 + 1" "j * 3 \<noteq> i * 3 + 2"
       "j * 3 + 1 \<noteq> i * 3" "j * 3 + 1 \<noteq> i * 3 + 1" "j * 3 + 1 \<noteq> i * 3 + 2"
       "j * 3 + 2 \<noteq> i * 3" "j * 3 + 2 \<noteq> i * 3 + 1" "j * 3 + 2 \<noteq> i * 3 + 2"
    using assms by presburger+
  then show ?thesis
    by (simp add: loopBody_def Let_def pointAt_def)
qed

lemma forLoop_lengths:
  "length (positionsTree (snd (forLoop rnd count h r i st))) = length (positionsTree (snd st))
   \<and> length (positionsSphere (snd (forLoop rnd count h r i st))) = length (positionsSphere (snd st))
   \<and> length (randoms (snd (forLoop rnd count h r i st))) = length (randoms (snd st))"
proof (induction rnd count h r i st rule: forLoop.induct)
  case (1 rnd count h r i st)
  show ?case
  proof (cases "i < count")
    case True
    with "1.IH" show ?thesis
      by (subst (1 2 3) forLoop.simps) (simp add: loopBody_lengths)
  next
    case False
    then show ?thesis by (subst (1 2 3) forLoop.simps) simp
  qed
qed

text \<open>The loop from \<open>i\<close> on fills each sphere point \<open>j\<close> with \<open>i \<le> j < count\<close> from
  the calls of pass \<open>j\<close>, and leaves the points before \<open>i\<close> alone.\<close>

lemma forLoop_sphere:
  assumes "length (positionsSphere (snd st)) = count * 3" and "j < count"
  shows "pointAt (positionsSphere (snd (forLoop rnd count h r i st))) j =
           (if i \<le> j then spherePoint rnd (fst st + 7 * (j - i))
            else pointAt (positionsSphere (snd st)) j)"
  using assms
proof (induction rnd count h r i st rule: forLoop.induct)
  case (1 rnd count h r i st)
  show ?case
  proof (cases "i < count")
    case False
    with "1.prems" show ?thesis by (subst forLoop.simps) simp
  next
    case True
    let ?st' = "loopBody rnd count h r i st"
    have len': "length (positionsSphere (snd ?st')) = count * 3"
      using "1.prems"(1) by (simp add: loopBody_lengths)
    have IH: "pointAt (positionsSphere (snd (forLoop rnd count h r (i + 1) ?st'))) j =
           (if i + 1 \<le> j then spherePoint rnd (fst ?st' + 7 * (j - (i + 1)))
            else pointAt (positionsSphere (snd ?st')) j)"
      using "1.IH" [OF True len' "1.prems"(2)] .
    have unfold: "forLoop rnd count h r i st = forLoop rnd count h r (i + 1) ?st'"
      using True by (subst forLoop.simps) simp
    show ?thesis
    proof (cases "i + 1 \<le> j")
      case True
      then have "fst ?st' + 7 * (j - (i + 1)) = fst st + 7 * (j - i)"
        by (simp add: loopBody_lengths)
      with True IH unfold show ?thesis by simp
    next
      case False
      note notlater = this
      show ?thesis
      proof (cases "j = i")
        case True
        have "i * 3 + 2 < length (positionsSphere (snd st))"
          using "1.prems" True by simp
        from loopBody_sphere_same [OF this, of rnd count h r] True notlater IH unfold
        show ?thesis by simp
      next
        case False
        with notlater have "j < i" by simp
        with loopBody_sphere_other [OF False, of rnd count h r st] notlater IH unfold
        show ?thesis by simp
      qed
    qed
  qed
qed

text \<open>A sphere point lies at the distance \<open>rSphere\<close> from the origin.\<close>

lemma spherePoint_distance:
  assumes "0 \<le> rnd (k + 3)"
  shows "distanceFromOrigin (spherePoint rnd k) = 8 + rnd (k + 3) * 2"
proof -
  define R where "R = 8 + rnd (k + 3) * 2"
  define p where "p = arccos (2 * rnd (k + 2) - 1)"
  define th where "th = rnd (k + 1) * pi * 2"
  have R0: "0 \<le> R" using assms by (simp add: R_def)
  have "R * sin p * cos th * (R * sin p * cos th) + R * sin p * sin th * (R * sin p * sin th)
          + R * cos p * (R * cos p)
        = R\<^sup>2 * ((sin p)\<^sup>2 * ((cos th)\<^sup>2 + (sin th)\<^sup>2) + (cos p)\<^sup>2)"
    by algebra
  also have "\<dots> = R\<^sup>2" by simp
  finally have "sqrt (R * sin p * cos th * (R * sin p * cos th)
                  + R * sin p * sin th * (R * sin p * sin th) + R * cos p * (R * cos p)) = R"
    using R0 by simp
  then show ?thesis
    by (simp add: distanceFromOrigin_def spherePoint_def Let_def R_def p_def th_def)
qed

text \<open>
  C7. For every \<open>count\<close>, \<open>generateTreeData\<close> returns tree and sphere position
  arrays of length \<open>count * 3\<close> each (and \<open>count\<close> random offsets), whatever
  \<open>Math.random\<close> returns. When every call of \<open>Math.random\<close> returns a number in
  \<open>[0, 1)\<close>, sphere point \<open>i\<close> has the distance \<open>8 + 2 * r\<close> from the origin, for
  \<open>r\<close> the fourth random number of pass \<open>i\<close>: a distance between 8 and 10.
\<close>

theorem generateTreeData_lengths_and_sphere:
  "length (positionsTree (generateTreeData rnd count treeHeight treeRadius)) = count * 3
   \<and> length (positionsSphere (generateTreeData rnd count treeHeight treeRadius)) = count * 3
   \<and> length (randoms (generateTreeData rnd count treeHeight treeRadius)) = count
   \<and> ((\<forall>k. 0 \<le> rnd k \<and> rnd k < 1) \<longrightarrow>
        (\<forall>i < count.
           distanceFromOrigin (pointAt (positionsSphere (generateTreeData rnd count treeHeight treeRadius)) i)
             = 8 + rnd (7 * i + 3) * 2
           \<and> 8 \<le> distanceFromOrigin
                   (pointAt (positionsSphere (generateTreeData rnd count treeHeight treeRadius)) i)
           \<and> distanceFromOrigin
                   (pointAt (positionsSphere (generateTreeData rnd count treeHeight treeRadius)) i) \<le> 10))"
proof -
  let ?init = "(0::nat, \<lparr> positionsTree = replicate (count * 3) (0::real),
                  positionsSphere = replicate (count * 3) 0,
                  randoms = replicate count 0 \<rparr>)"
  have lens: "length (positionsTree (generateTreeData rnd count treeHeight treeRadius)) = count * 3
   \<and> length (positionsSphere (generateTreeData rnd count treeHeight treeRadius)) = count * 3
   \<and> length (randoms (generateTreeData rnd count treeHeight treeRadius)) = count"
    using forLoop_lengths [of rnd count treeHeight treeRadius 0 ?init]
    by (simp add: generateTreeData_def)
  have pt: "pointAt (positionsSphere (generateTreeData rnd count treeHeight treeRadius)) i
              = spherePoint rnd (7 * i)" if "i < count" for i
    using forLoop_sphere [of ?init count i rnd treeHeight treeRadius 0] that
    by (simp add: generateTreeData_def)
  have dist: "distanceFromOrigin (pointAt (positionsSphere (generateTreeData rnd count treeHeight treeRadius)) i)
             = 8 + rnd (7 * i + 3) * 2
           \<and> 8 \<le> distanceFromOrigin
                   (pointAt (positionsSphere (generateTreeData rnd count treeHeight treeRadius)) i)
           \<and> distanceFromOrigin
                   (pointAt (positionsSphere (generateTreeData rnd count treeHeight treeRadius)) i) \<le> 10"
    if r: "\<forall>k. 0 \<le> rnd k \<and> rnd k < 1" and i: "i < count" for i
  proof -
    from r have a: "0 \<le> rnd (7 * i + 3)" and b: "rnd (7 * i + 3) < 1" by simp_all
    from spherePoint_distance [of rnd "7 * i", OF a] pt [OF i] a b show ?thesis by simp
  qed
  from lens dist show ?thesis by blast
qed

text \<open>C7 for one particle with \<open>Math.random\<close> returning 0 always: the sphere point is
  \<open>(0, 0, -8)\<close>.\<close>

theorem generateTreeData_lengths_and_sphere_witness:
  "(\<forall>k. (0::real) \<le> (\<lambda>_. 0) k \<and> (\<lambda>_. 0::real) k < 1)
   \<and> positionsSphere (generateTreeData (\<lambda>_. 0) 1 15 6) = [0, 0, - 8]
   \<and> pointAt (positionsSphere (generateTreeData (\<lambda>_. 0) 1 15 6)) 0 = (0, 0, - 8)
   \<and> distanceFromOrigin (pointAt (positionsSphere (generateTreeData (\<lambda>_. 0) 1 15 6)) 0) = 8"
  using generateTreeData_lengths_and_sphere [of "\<lambda>_. 0" 1 15 6]
  by (simp add: generateTreeData_def loopBody_def Let_def numeral_3_eq_3 pointAt_def)

end
